theory Spec2Isabelle
  imports Main "HOL-Library.AList"
begin

section \<open>Time values and 64-bit arithmetic\<close>

text \<open>
  A \<open>time.Time\<close> is modelled by its instant in nanoseconds on one time line (an unbounded
  integer: the range of \<open>time.Time\<close> is far wider than 64 bits of nanoseconds). A
  \<open>time.Duration\<close> is an \<open>int64\<close> count of nanoseconds, so the arithmetic on durations
  wraps around at 64 bits, as Go's integer arithmetic does.
\<close>

type_synonym Time = int
type_synonym Duration = int

definition wrap64 :: "int \<Rightarrow> int" where
  "wrap64 x = (x + 2 ^ 63) mod 2 ^ 64 - 2 ^ 63"

definition maxDuration :: Duration where
  "maxDuration = 2 ^ 63 - 1"

definition minDuration :: Duration where
  "minDuration = - (2 ^ 63)"

definition Millisecond :: Duration where
  "Millisecond = 1000000"

text \<open>\<open>time.Duration(px) * time.Millisecond\<close>: a product of two \<open>int64\<close> values.\<close>

definition mul_Duration :: "int \<Rightarrow> Duration \<Rightarrow> Duration" where
  "mul_Duration a b = wrap64 (a * b)"

text \<open>\<open>t.Add(d)\<close> and \<open>t.After(u)\<close>.\<close>

definition Time_Add :: "Time \<Rightarrow> Duration \<Rightarrow> Time" where
  "Time_Add t d = t + d"

definition Time_After :: "Time \<Rightarrow> Time \<Rightarrow> bool" where
  "Time_After t u = (u < t)"

text \<open>The zero \<open>time.Time\<close> (January 1, year 1), the value of a field never assigned.\<close>

definition zeroTime :: Time where
  "zeroTime = - 62135596800000000000"

section \<open>The store\<close>

record StoreItem =
  item_value :: string
  hasExpiry :: bool
  expiresAt :: Time

text \<open>
  The state the server's functions work on. \<open>data\<close> is \<open>store.data\<close>: a Go map, kept as
  an association list whose order stands for the order in which \<open>range\<close> visits the map.
  \<open>detached\<close> lists the keys of the \<open>go s.deleteKey(key)\<close> tasks that were started and have
  not run yet. \<open>ticks\<close> counts the calls of \<open>time.Now()\<close> made so far: the clock is a
  function \<open>clk\<close> that gives the reading of each call. \<open>written\<close> lists the byte strings
  handed to \<open>conn.Write\<close>, in order.
\<close>

record world =
  data :: "(string \<times> StoreItem) list"
  detached :: "string list"
  ticks :: nat
  written :: "string list"

definition time_Now :: "(nat \<Rightarrow> Time) \<Rightarrow> world \<Rightarrow> Time \<times> world" where
  "time_Now clk w = (clk (ticks w), w\<lparr>ticks := Suc (ticks w)\<rparr>)"

definition Store_Set :: "(nat \<Rightarrow> Time) \<Rightarrow> string \<Rightarrow> string \<Rightarrow> int \<Rightarrow> world \<Rightarrow> world" where
  "Store_Set clk key val px w =
     (let item = \<lparr>item_value = val, hasExpiry = (px > 0), expiresAt = zeroTime\<rparr> in
      if px > 0 then
        (let (now, w1) = time_Now clk w;
             item1 = item\<lparr>expiresAt := Time_Add now (mul_Duration px Millisecond)\<rparr>
         in w1\<lparr>data := AList.update key item1 (data w1)\<rparr>)
      else w\<lparr>data := AList.update key item (data w)\<rparr>)"

definition Store_Get :: "(nat \<Rightarrow> Time) \<Rightarrow> string \<Rightarrow> world \<Rightarrow> (string \<times> bool) \<times> world" where
  "Store_Get clk key w =
     (case map_of (data w) key of
        None \<Rightarrow> (([], False), w)
      | Some item \<Rightarrow>
          if hasExpiry item then
            (let (now, w1) = time_Now clk w in
             if Time_After now (expiresAt item)
             then (([], False), w1\<lparr>detached := detached w1 @ [key]\<rparr>)
             else ((item_value item, True), w1))
          else ((item_value item, True), w))"

definition deleteKey :: "string \<Rightarrow> world \<Rightarrow> world" where
  "deleteKey key w = w\<lparr>data := AList.delete key (data w)\<rparr>"

fun getAllKeys_loop ::
  "Time \<Rightarrow> (string \<times> StoreItem) list \<Rightarrow> string list \<Rightarrow> string list \<Rightarrow> string list \<times> string list" where
  "getAllKeys_loop now [] keys dels = (keys, dels)"
| "getAllKeys_loop now ((key, item) # rest) keys dels =
     (if hasExpiry item \<and> Time_After now (expiresAt item)
      then getAllKeys_loop now rest keys (dels @ [key])
      else getAllKeys_loop now rest (keys @ [key]) dels)"

definition getAllKeys :: "(nat \<Rightarrow> Time) \<Rightarrow> world \<Rightarrow> string list \<times> world" where
  "getAllKeys clk w =
     (let (now, w1) = time_Now clk w;
          (keys, dels) = getAllKeys_loop now (data w1) [] []
      in (keys, w1\<lparr>detached := detached w1 @ dels\<rparr>))"

section \<open>Strings of the wire protocol\<close>

text \<open>
  Go strings are byte strings; \<open>string\<close> is a list of 8-bit characters. The functions of
  the Go standard library that the server calls are written out here as far as the server
  depends on them.
\<close>

definition CRLF :: string where
  "CRLF = [CHR 0x0D, CHR 0x0A]"

text \<open>\<open>strings.HasPrefix\<close> and \<open>strings.TrimSuffix\<close>.\<close>

definition HasPrefix :: "string \<Rightarrow> string \<Rightarrow> bool" where
  "HasPrefix s p = (take (length p) s = p)"

definition TrimSuffix :: "string \<Rightarrow> string \<Rightarrow> string" where
  "TrimSuffix s suf =
     (if length suf \<le> length s \<and> drop (length s - length suf) s = suf
      then take (length s - length suf) s else s)"

text \<open>
  \<open>strings.ToUpper\<close> and \<open>strings.ToLower\<close> on the ASCII letters. Bytes outside ASCII are
  left as they are: Go's mapping of the letters beyond ASCII is not part of this model, and
  the theorems below take the upper-cased command name as a hypothesis.
\<close>

definition upper_byte :: "char \<Rightarrow> char" where
  "upper_byte c =
     (let n = (of_char c :: nat) in if 97 \<le> n \<and> n \<le> 122 then char_of (n - 32) else c)"

definition lower_byte :: "char \<Rightarrow> char" where
  "lower_byte c =
     (let n = (of_char c :: nat) in if 65 \<le> n \<and> n \<le> 90 then char_of (n + 32) else c)"

definition ToUpper :: "string \<Rightarrow> string" where
  "ToUpper s = map upper_byte s"

definition ToLower :: "string \<Rightarrow> string" where
  "ToLower s = map lower_byte s"

text \<open>
  \<open>strconv.Atoi(s)\<close> and \<open>strconv.ParseInt(s, 10, 64)\<close> (an \<open>int\<close> has 64 bits): an
  optional sign, then at least one decimal digit and nothing else; a value outside
  \<open>int64\<close> is an error too. \<open>None\<close> is the error.
\<close>

definition digit_val :: "char \<Rightarrow> nat option" where
  "digit_val c =
     (let n = (of_char c :: nat) in if 48 \<le> n \<and> n \<le> 57 then Some (n - 48) else None)"

fun parse_digits :: "string \<Rightarrow> nat \<Rightarrow> nat option" where
  "parse_digits [] acc = Some acc"
| "parse_digits (c # cs) acc =
     (case digit_val c of None \<Rightarrow> None | Some d \<Rightarrow> parse_digits cs (acc * 10 + d))"

definition Atoi :: "string \<Rightarrow> int option" where
  "Atoi s =
     (case s of
        [] \<Rightarrow> None
      | c # cs \<Rightarrow>
          (let body = (if c = CHR ''-'' \<or> c = CHR ''+'' then cs else s) in
           if body = [] then None
           else
             (case parse_digits body 0 of
                None \<Rightarrow> None
              | Some n \<Rightarrow>
                  (let v = (if c = CHR ''-'' then - int n else int n) in
                   if - (2 ^ 63) \<le> v \<and> v \<le> 2 ^ 63 - 1 then Some v else None))))"

text \<open>The verb \<open>%d\<close> of \<open>fmt.Sprintf\<close> on a length (never negative).\<close>

fun decimal :: "nat \<Rightarrow> string" where
  "decimal n =
     (if n < 10 then [char_of (48 + n)]
      else decimal (n div 10) @ [char_of (48 + n mod 10)])"

declare decimal.simps [simp del]

text \<open>\<open>fmt.Sprintf("$%d\r\n%s\r\n", len(s), s)\<close>: a bulk string.\<close>

definition bulk :: "string \<Rightarrow> string" where
  "bulk s = CHR ''$'' # decimal (length s) @ CRLF @ s @ CRLF"

text \<open>The null bulk string \<open>$-1\r\n\<close>.\<close>

definition null_bulk :: string where
  "null_bulk = ''$-1'' @ CRLF"

section \<open>The command dispatcher\<close>

record Config =
  dir :: string
  dbfilename :: string

text \<open>
  \<open>conn.Write(b)\<close>: the byte string is handed to the connection; \<open>wfail n\<close> tells whether
  the call with \<open>n\<close> earlier calls before it returns an error.
\<close>

definition conn_Write :: "(nat \<Rightarrow> bool) \<Rightarrow> string \<Rightarrow> world \<Rightarrow> bool \<times> world" where
  "conn_Write wfail b w = (wfail (length (written w)), w\<lparr>written := written w @ [b]\<rparr>)"

text \<open>
  How one round of the handler's loop ends: \<open>Continue\<close> with the next frame, or \<open>Return\<close>
  (the deferred \<open>conn.Close()\<close> runs).
\<close>

datatype flow = Continue | Return

text \<open>The check \<open>if err != nil { return }\<close> at the end of the switch.\<close>

definition check_err :: "bool \<times> world \<Rightarrow> flow \<times> world" where
  "check_err r = (if fst r then Return else Continue, snd r)"

text \<open>A reply followed by \<open>continue\<close>: the error of the write is dropped.\<close>

definition reply_continue :: "bool \<times> world \<Rightarrow> flow \<times> world" where
  "reply_continue r = (Continue, snd r)"

definition handleConfigGet :: "Config \<Rightarrow> (nat \<Rightarrow> bool) \<Rightarrow> string \<Rightarrow> world \<Rightarrow> world" where
  "handleConfigGet cfg wfail param w =
     (let p = ToLower param;
          v = (if p = ''dir'' then dir cfg else if p = ''dbfilename'' then dbfilename cfg else [])
      in snd (conn_Write wfail (''*2'' @ CRLF @ bulk param @ bulk v) w))"

definition cmd_ECHO :: "(nat \<Rightarrow> bool) \<Rightarrow> string list \<Rightarrow> world \<Rightarrow> flow \<times> world" where
  "cmd_ECHO wfail elements w =
     (if length elements < 2
      then reply_continue
             (conn_Write wfail (''-ERR wrong number of arguments for 'echo' command'' @ CRLF) w)
      else check_err (conn_Write wfail (bulk (elements ! 1)) w))"

definition cmd_SET ::
  "(nat \<Rightarrow> Time) \<Rightarrow> (nat \<Rightarrow> bool) \<Rightarrow> string list \<Rightarrow> world \<Rightarrow> flow \<times> world" where
  "cmd_SET clk wfail elements w =
     (if length elements < 3
      then reply_continue
             (conn_Write wfail (''-ERR wrong number of arguments for 'set' command'' @ CRLF) w)
      else
        (let key = elements ! 1; val = elements ! 2 in
         if length elements > 3 \<and> ToUpper (elements ! 3) = ''PX'' then
           (if length elements < 5
            then reply_continue (conn_Write wfail (''-ERR syntax error'' @ CRLF) w)
            else
              (case Atoi (elements ! 4) of
                 None \<Rightarrow>
                   reply_continue
                     (conn_Write wfail (''-ERR invalid expire time in 'set' command'' @ CRLF) w)
               | Some px \<Rightarrow>
                   check_err (conn_Write wfail (''+OK'' @ CRLF) (Store_Set clk key val px w))))
         else check_err (conn_Write wfail (''+OK'' @ CRLF) (Store_Set clk key val 0 w))))"

definition cmd_GET ::
  "(nat \<Rightarrow> Time) \<Rightarrow> (nat \<Rightarrow> bool) \<Rightarrow> string list \<Rightarrow> world \<Rightarrow> flow \<times> world" where
  "cmd_GET clk wfail elements w =
     (if length elements \<noteq> 2
      then reply_continue
             (conn_Write wfail (''-ERR wrong number of arguments for 'get' command'' @ CRLF) w)
      else
        (let ((val, exists), w1) = Store_Get clk (elements ! 1) w in
         if \<not> exists then check_err (conn_Write wfail null_bulk w1)
         else check_err (conn_Write wfail (bulk val) w1)))"

definition cmd_CONFIG ::
  "Config \<Rightarrow> (nat \<Rightarrow> bool) \<Rightarrow> string list \<Rightarrow> world \<Rightarrow> flow \<times> world" where
  "cmd_CONFIG cfg wfail elements w =
     (if length elements \<ge> 3 \<and> ToUpper (elements ! 1) = ''GET''
      then (Continue, handleConfigGet cfg wfail (elements ! 2) w)
      else check_err (conn_Write wfail (''-ERR Wrong number of arguments'' @ CRLF) w))"

fun keys_reply :: "string list \<Rightarrow> string \<Rightarrow> string" where
  "keys_reply [] response = response"
| "keys_reply (key # keys) response = keys_reply keys (response @ bulk key)"

definition cmd_KEYS ::
  "(nat \<Rightarrow> Time) \<Rightarrow> (nat \<Rightarrow> bool) \<Rightarrow> string list \<Rightarrow> world \<Rightarrow> flow \<times> world" where
  "cmd_KEYS clk wfail elements w =
     (if length elements \<noteq> 2
      then reply_continue
             (conn_Write wfail (''-ERR wrong number of arguments for 'keys' command'' @ CRLF) w)
      else if elements ! 1 \<noteq> ''*''
      then reply_continue (conn_Write wfail (''-ERR unsupported pattern'' @ CRLF) w)
      else
        (let (keys, w1) = getAllKeys clk w;
             response = keys_reply keys (CHR ''*'' # decimal (length keys) @ CRLF)
         in check_err (conn_Write wfail response w1)))"

text \<open>
  The part of \<open>handleRequest\<close> after the frame is decoded: the switch on the upper-cased
  first element, skipped as a whole when the frame has no element.
\<close>

definition dispatch ::
  "Config \<Rightarrow> (nat \<Rightarrow> Time) \<Rightarrow> (nat \<Rightarrow> bool) \<Rightarrow> string list \<Rightarrow> world \<Rightarrow> flow \<times> world" where
  "dispatch cfg clk wfail elements w =
     (if length elements > 0 then
        (let command = ToUpper (elements ! 0) in
         if command = ''PING'' then check_err (conn_Write wfail (''+PONG'' @ CRLF) w)
         else if command = ''ECHO'' then cmd_ECHO wfail elements w
         else if command = ''SET'' then cmd_SET clk wfail elements w
         else if command = ''GET'' then cmd_GET clk wfail elements w
         else if command = ''CONFIG'' then cmd_CONFIG cfg wfail elements w
         else if command = ''KEYS'' then cmd_KEYS clk wfail elements w
         else check_err (conn_Write wfail (''-ERR unknown command'' @ CRLF) w))
      else (Continue, w))"

section \<open>The frame decoder\<close>

text \<open>
  The connection's input is the byte string that the client sends before it closes its
  side; reading past its end is the error \<open>io.EOF\<close>. Every other error of the socket, and
  a client that stops sending without closing, is outside this model. So is the limit of
  memory: \<open>make\<close> succeeds for every size that is not negative.
\<close>

text \<open>
  \<open>reader.ReadString('\n')\<close>: the bytes up to and with the first line feed, and the rest
  of the input; \<open>None\<close> is the error of a stream that ends before a line feed.
\<close>

definition ReadString :: "string \<Rightarrow> (string \<times> string) option" where
  "ReadString inp =
     (if CHR 0x0A \<in> set inp
      then Some (takeWhile (\<lambda>c. c \<noteq> CHR 0x0A) inp @ [CHR 0x0A],
                 tl (dropWhile (\<lambda>c. c \<noteq> CHR 0x0A) inp))
      else None)"

text \<open>
  What a decoding step gives: a value and the input left, the handler's \<open>return\<close> (the
  connection is closed, nothing is written), or a run-time panic.
\<close>

datatype 'a decoded = Decoded 'a string | Closed | Panic

text \<open>
  One round of the loop over the elements: the header \<open>$<length>\<close>, then
  \<open>make([]byte, length+2)\<close> (a panic when the size is negative), \<open>io.ReadFull\<close> (an error
  when fewer bytes are left) and \<open>bulkData[:length]\<close> (a panic when \<open>length\<close> is outside
  the slice).
\<close>

definition read_element :: "string \<Rightarrow> string decoded" where
  "read_element inp =
     (case ReadString inp of
        None \<Rightarrow> Closed
      | Some (bulkLen, rest) \<Rightarrow>
          if \<not> HasPrefix bulkLen ''$'' then Closed
          else
            (case Atoi (TrimSuffix (drop 1 bulkLen) CRLF) of
               None \<Rightarrow> Closed
             | Some len \<Rightarrow>
                 (let n = wrap64 (len + 2) in
                  if n < 0 then Panic
                  else if int (length rest) < n then Closed
                  else if len < 0 \<or> n < len then Panic
                  else Decoded (take (nat len) rest) (drop (nat n) rest))))"

text \<open>The loop \<open>for i := 0; i < arrayLen; i++\<close>, by the number of rounds left.\<close>

fun read_elements :: "nat \<Rightarrow> string \<Rightarrow> string list \<Rightarrow> string list decoded" where
  "read_elements 0 inp elements = Decoded elements inp"
| "read_elements (Suc n) inp elements =
     (case read_element inp of
        Closed \<Rightarrow> Closed
      | Panic \<Rightarrow> Panic
      | Decoded s rest \<Rightarrow> read_elements n rest (elements @ [s]))"

text \<open>
  The head of the handler's loop: the line \<open>*<count>\<close>, \<open>make([]string, 0, arrayLen)\<close>
  (a panic when the capacity is negative) and the elements.
\<close>

definition read_frame :: "string \<Rightarrow> string list decoded" where
  "read_frame inp =
     (case ReadString inp of
        None \<Rightarrow> Closed
      | Some (firstLine, rest) \<Rightarrow>
          if \<not> HasPrefix firstLine ''*'' then Closed
          else
            (case Atoi (TrimSuffix (drop 1 firstLine) CRLF) of
               None \<Rightarrow> Closed
             | Some arrayLen \<Rightarrow>
                 if arrayLen < 0 then Panic else read_elements (nat arrayLen) rest []))"

lemma ReadString_shorter: "ReadString inp = Some (line, rest) \<Longrightarrow> length rest < length inp"
proof -
  assume a: "ReadString inp = Some (line, rest)"
  then have m: "CHR 0x0A \<in> set inp" and r: "rest = tl (dropWhile (\<lambda>c. c \<noteq> CHR 0x0A) inp)"
    by (auto simp: ReadString_def split: if_splits)
  from m have ne: "dropWhile (\<lambda>c. c \<noteq> CHR 0x0A) inp \<noteq> []" by simp
  have "length (dropWhile (\<lambda>c. c \<noteq> CHR 0x0A) inp) \<le> length inp"
    by (rule length_dropWhile_le)
  with ne r show ?thesis by (cases "dropWhile (\<lambda>c. c \<noteq> CHR 0x0A) inp") auto
qed

lemma read_element_shorter: "read_element inp = Decoded s rest \<Longrightarrow> length rest < length inp"
  by (auto simp: read_element_def Let_def split: option.splits if_splits dest!: ReadString_shorter)

lemma read_elements_shorter:
  "read_elements n inp elements = Decoded els rest \<Longrightarrow> length rest \<le> length inp"
proof (induction n arbitrary: inp elements)
  case 0
  then show ?case by simp
next
  case (Suc n)
  then show ?case
    by (fastforce split: decoded.splits dest: read_element_shorter)
qed

lemma read_frame_shorter: "read_frame inp = Decoded els rest \<Longrightarrow> length rest < length inp"
  by (auto simp: read_frame_def split: option.splits if_splits
      dest!: ReadString_shorter read_elements_shorter)

text \<open>
  How the handler ends: it returns and the deferred \<open>conn.Close()\<close> closes the connection,
  or a panic ends the goroutine (and, never recovered, the process).
\<close>

datatype ending = ConnClosed | Panicked

function handleRequest ::
  "Config \<Rightarrow> (nat \<Rightarrow> Time) \<Rightarrow> (nat \<Rightarrow> bool) \<Rightarrow> string \<Rightarrow> world \<Rightarrow> ending \<times> world" where
  "handleRequest cfg clk wfail inp w =
     (case read_frame inp of
        Closed \<Rightarrow> (ConnClosed, w)
      | Panic \<Rightarrow> (Panicked, w)
      | Decoded elements rest \<Rightarrow>
          (case dispatch cfg clk wfail elements w of
             (Return, w1) \<Rightarrow> (ConnClosed, w1)
           | (Continue, w1) \<Rightarrow> handleRequest cfg clk wfail rest w1))"
  by pat_completeness auto
termination
  by (relation "measure (\<lambda>(cfg, clk, wfail, inp, w). length inp)")
     (auto dest: read_frame_shorter)

declare handleRequest.simps [simp del]

section \<open>The snapshot loader\<close>

definition RDBHeader :: string where
  "RDBHeader = ''REDIS0011''"

definition TypeString :: char where
  "TypeString = CHR 0x00"

definition MetadataStart :: char where
  "MetadataStart = CHR 0xFA"

definition DatabaseStart :: char where
  "DatabaseStart = CHR 0xFE"

definition ExpireTimeMs :: char where
  "ExpireTimeMs = CHR 0xFC"

definition ExpireTime :: char where
  "ExpireTime = CHR 0xFD"

definition EOF :: char where
  "EOF = CHR 0xFF"

definition ResizeDB :: char where
  "ResizeDB = CHR 0xFB"

record KeyValue =
  Key :: string
  Value :: string
  HasExpiry :: bool
  ExpiresAt :: Time

text \<open>
  An open \<open>os.File\<close>: the bytes of the file and the offset of the next read. \<open>Seek\<close> may
  move the offset past the end. Reading at or past the end is \<open>io.EOF\<close>; no other error
  of the file system is part of the model.
\<close>

record File =
  content :: string
  offset :: nat

text \<open>What \<open>os.Open(r.filepath)\<close> gives.\<close>

datatype opened = NotExist | OpenFailed | Opened string

text \<open>
  The errors \<open>Read\<close> returns, one for each message (the cause wrapped in a message is
  left out), and what a call gives: a value, an error, or a run-time panic.
\<close>

datatype load_error =
    OpenError
  | ReadHeaderError
  | InvalidHeader
  | SkipMetadataError
  | DatabaseNumberError
  | AfterDatabaseNumberError
  | ReadError
  | UnsupportedValueType char
  | ReadKeyError
  | ReadValueError
  | NextOpcodeError
  | UnsupportedOpcode char

datatype 'a res = Ok 'a | Err load_error | Crash

text \<open>\<open>file.Read(opcode)\<close> with the buffer of one byte; \<open>None\<close> is \<open>io.EOF\<close>.\<close>

definition file_Read :: "File \<Rightarrow> (char \<times> File) option" where
  "file_Read f =
     (if offset f < length (content f)
      then Some (content f ! offset f, f\<lparr>offset := Suc (offset f)\<rparr>)
      else None)"

text \<open>
  \<open>io.ReadFull(file, buf)\<close> with a buffer of \<open>n\<close> bytes, which is also how
  \<open>binary.Read\<close> gets its bytes; \<open>None\<close> is the error of a file that ends before.
\<close>

definition ReadFull :: "nat \<Rightarrow> File \<Rightarrow> (string \<times> File) option" where
  "ReadFull n f =
     (if n = 0 then Some ([], f)
      else if offset f + n \<le> length (content f)
      then Some (take n (drop (offset f) (content f)), f\<lparr>offset := offset f + n\<rparr>)
      else None)"

text \<open>Little-endian bytes as an unsigned number, and its reading as \<open>int32\<close>.\<close>

fun le_uint :: "string \<Rightarrow> int" where
  "le_uint [] = 0"
| "le_uint (c # cs) = of_char c + 256 * le_uint cs"

definition to_int32 :: "int \<Rightarrow> int" where
  "to_int32 u = (if u < 2 ^ 31 then u else u - 2 ^ 32)"

text \<open>\<open>time.Unix(sec, 0)\<close> and \<open>time.UnixMilli(msec)\<close>.\<close>

definition time_Unix :: "int \<Rightarrow> Time" where
  "time_Unix sec = sec * 1000000000"

definition time_UnixMilli :: "int \<Rightarrow> Time" where
  "time_UnixMilli msec = msec * 1000000"

definition readLength :: "File \<Rightarrow> (int \<times> File) option" where
  "readLength f =
     (case ReadFull 4 f of
        None \<Rightarrow> None
      | Some (b, f1) \<Rightarrow> Some (to_int32 (le_uint b), f1))"

text \<open>
  \<open>skipString\<close>: \<open>file.Seek(int64(length), io.SeekCurrent)\<close> fails when the new offset
  would be negative; \<open>None\<close> is either error.
\<close>

definition skipString :: "File \<Rightarrow> File option" where
  "skipString f =
     (case readLength f of
        None \<Rightarrow> None
      | Some (len, f1) \<Rightarrow>
          if int (offset f1) + len < 0 then None
          else Some (f1\<lparr>offset := nat (int (offset f1) + len)\<rparr>))"

definition skipMetadata :: "File \<Rightarrow> File option" where
  "skipMetadata f = (case skipString f of None \<Rightarrow> None | Some f1 \<Rightarrow> skipString f1)"

text \<open>\<open>readString\<close>: \<open>make([]byte, length)\<close> panics when the length is negative.\<close>

definition readString :: "File \<Rightarrow> (string \<times> File) res" where
  "readString f =
     (case readLength f of
        None \<Rightarrow> Err ReadError
      | Some (len, f1) \<Rightarrow>
          if len < 0 then Crash
          else
            (case ReadFull (nat len) f1 of
               None \<Rightarrow> Err ReadError
             | Some (d, f2) \<Rightarrow> Ok (d, f2)))"

text \<open>
  The switch at the head of the record loop: an expiry marker, its timestamp and the byte
  after it, or nothing.
\<close>

definition read_expiry :: "char \<Rightarrow> File \<Rightarrow> (KeyValue \<times> char \<times> File) res" where
  "read_expiry opcode f =
     (let pair = \<lparr>Key = [], Value = [], HasExpiry = False, ExpiresAt = zeroTime\<rparr> in
      if opcode = ExpireTime then
        (case ReadFull 4 f of
           None \<Rightarrow> Err ReadError
         | Some (b, f1) \<Rightarrow>
             (case file_Read f1 of
                None \<Rightarrow> Err ReadError
              | Some (opcode1, f2) \<Rightarrow>
                  Ok (pair\<lparr>ExpiresAt := time_Unix (le_uint b), HasExpiry := True\<rparr>,
                      opcode1, f2)))
      else if opcode = ExpireTimeMs then
        (case ReadFull 8 f of
           None \<Rightarrow> Err ReadError
         | Some (b, f1) \<Rightarrow>
             (case file_Read f1 of
                None \<Rightarrow> Err ReadError
              | Some (opcode1, f2) \<Rightarrow>
                  Ok (pair\<lparr>ExpiresAt := time_UnixMilli (wrap64 (le_uint b)),
                            HasExpiry := True\<rparr>,
                      opcode1, f2)))
      else Ok (pair, opcode, f))"

text \<open>
  One round of the record loop, from the byte in \<open>opcode\<close> to the byte read into
  \<open>opcode\<close> after the record.
\<close>

definition read_pair :: "char \<Rightarrow> File \<Rightarrow> (KeyValue \<times> char \<times> File) res" where
  "read_pair opcode f =
     (case read_expiry opcode f of
        Err e \<Rightarrow> Err e
      | Crash \<Rightarrow> Crash
      | Ok (pair, opcode1, f1) \<Rightarrow>
          if opcode1 \<noteq> TypeString then Err (UnsupportedValueType opcode1)
          else
            (case readString f1 of
               Err e \<Rightarrow> Err ReadKeyError
             | Crash \<Rightarrow> Crash
             | Ok (key, f2) \<Rightarrow>
                 (case readString f2 of
                    Err e \<Rightarrow> Err ReadValueError
                  | Crash \<Rightarrow> Crash
                  | Ok (val, f3) \<Rightarrow>
                      (case file_Read f3 of
                         None \<Rightarrow> Err NextOpcodeError
                       | Some (opcode2, f4) \<Rightarrow>
                           Ok (pair\<lparr>Key := key, Value := val\<rparr>, opcode2, f4)))))"

lemma file_Read_offset:
  "file_Read f = Some (c, f') \<Longrightarrow>
     content f' = content f \<and> offset f < offset f' \<and> offset f' \<le> length (content f')"
  by (auto simp: file_Read_def split: if_splits)

lemma ReadFull_offset:
  "ReadFull n f = Some (b, f') \<Longrightarrow> content f' = content f \<and> offset f \<le> offset f'"
  by (auto simp: ReadFull_def split: if_splits)

lemma readLength_offset:
  "readLength f = Some (len, f') \<Longrightarrow> content f' = content f \<and> offset f \<le> offset f'"
  by (auto simp: readLength_def split: option.splits dest: ReadFull_offset)

lemma readString_offset:
  "readString f = Ok (s, f') \<Longrightarrow> content f' = content f \<and> offset f \<le> offset f'"
  by (fastforce simp: readString_def split: option.splits if_splits
      dest: ReadFull_offset readLength_offset)

lemma read_expiry_offset:
  "read_expiry opcode f = Ok (pair, opcode1, f') \<Longrightarrow>
     content f' = content f \<and> offset f \<le> offset f'"
  by (fastforce simp: read_expiry_def Let_def split: option.splits if_splits
      dest: ReadFull_offset file_Read_offset)

lemma read_pair_offset:
  assumes "read_pair opcode f = Ok (pair, opcode2, f')"
  shows "content f' = content f \<and> offset f < offset f' \<and> offset f' \<le> length (content f')"
proof -
  from assms obtain p0 op1 f1 key f2 val f3 where
    e: "read_expiry opcode f = Ok (p0, op1, f1)" and
    k: "readString f1 = Ok (key, f2)" and
    v: "readString f2 = Ok (val, f3)" and
    r: "file_Read f3 = Some (opcode2, f')"
    by (auto simp: read_pair_def split: res.splits if_splits option.splits)
  from read_expiry_offset [OF e] readString_offset [OF k] readString_offset [OF v]
    file_Read_offset [OF r]
  show ?thesis by auto
qed

text \<open>
  The record loop \<open>for opcode[0] != DatabaseStart && opcode[0] != EOF\<close>. It gives the
  records, the byte that ended it (still in \<open>opcode\<close>) and the file.
\<close>

function read_pairs :: "char \<Rightarrow> File \<Rightarrow> KeyValue list \<Rightarrow> (KeyValue list \<times> char \<times> File) res" where
  "read_pairs opcode f pairs =
     (if opcode \<noteq> DatabaseStart \<and> opcode \<noteq> EOF then
        (case read_pair opcode f of
           Err e \<Rightarrow> Err e
         | Crash \<Rightarrow> Crash
         | Ok (pair, opcode2, f') \<Rightarrow> read_pairs opcode2 f' (pairs @ [pair]))
      else Ok (pairs, opcode, f))"
  by pat_completeness auto
termination
proof (relation "measure (\<lambda>(opcode, f, pairs). Suc (length (content f)) - offset f)")
  show "wf (measure (\<lambda>(opcode, f, pairs). Suc (length (content f)) - offset f))"
    by simp
next
  fix opcode :: char and f :: File and pairs :: "KeyValue list"
    and x1 :: "KeyValue \<times> char \<times> File" and pair x2 opcode2 f'
  assume "read_pair opcode f = Ok x1" "(pair, x2) = x1" "(opcode2, f') = x2"
  then have "read_pair opcode f = Ok (pair, opcode2, f')" by simp
  from read_pair_offset [OF this]
  show "((opcode2, f', pairs @ [pair]), (opcode, f, pairs))
        \<in> measure (\<lambda>(opcode, f, pairs). Suc (length (content f)) - offset f)"
    by auto
qed

declare read_pairs.simps [simp del]

text \<open>
  The case \<open>DatabaseStart\<close> of the opcode switch: the database number, the optional
  \<open>ResizeDB\<close> with its two lengths, and the record loop.
\<close>

definition read_database :: "File \<Rightarrow> KeyValue list \<Rightarrow> (KeyValue list \<times> char \<times> File) res" where
  "read_database f pairs =
     (case readLength f of
        None \<Rightarrow> Err DatabaseNumberError
      | Some (dbnum, f1) \<Rightarrow>
          (case file_Read f1 of
             None \<Rightarrow> Err AfterDatabaseNumberError
           | Some (opcode, f2) \<Rightarrow>
               if opcode = ResizeDB then
                 (case readLength f2 of
                    None \<Rightarrow> Err ReadError
                  | Some (size1, f3) \<Rightarrow>
                      (case readLength f3 of
                         None \<Rightarrow> Err ReadError
                       | Some (size2, f4) \<Rightarrow>
                           (case file_Read f4 of
                              None \<Rightarrow> Err ReadError
                            | Some (opcode1, f5) \<Rightarrow> read_pairs opcode1 f5 pairs)))
               else read_pairs opcode f2 pairs))"

text \<open>
  The loop over the opcodes. Every round starts with \<open>file.Read(opcode)\<close>, so the byte the
  record loop left in \<open>opcode\<close> is overwritten. A negative length in the metadata moves
  the offset back, and the loop need not end: \<open>None\<close> is the run that never returns.
\<close>

partial_function (option) Read_loop :: "File \<Rightarrow> KeyValue list \<Rightarrow> KeyValue list res option" where
  "Read_loop f pairs =
     (case file_Read f of
        None \<Rightarrow> Some (Ok pairs)
      | Some (opcode, f1) \<Rightarrow>
          if opcode = MetadataStart then
            (case skipMetadata f1 of
               None \<Rightarrow> Some (Err SkipMetadataError)
             | Some f2 \<Rightarrow> Read_loop f2 pairs)
          else if opcode = DatabaseStart then
            (case read_database f1 pairs of
               Err e \<Rightarrow> Some (Err e)
             | Crash \<Rightarrow> Some Crash
             | Ok (pairs1, last_opcode, f2) \<Rightarrow> Read_loop f2 pairs1)
          else if opcode = EOF then Some (Ok pairs)
          else Some (Err (UnsupportedOpcode opcode)))"

declare Read_loop.simps [code]

text \<open>\<open>Reader.Read\<close>, on what \<open>os.Open\<close> gave.\<close>

definition Reader_Read :: "opened \<Rightarrow> KeyValue list res option" where
  "Reader_Read opn =
     (case opn of
        NotExist \<Rightarrow> Some (Ok [])
      | OpenFailed \<Rightarrow> Some (Err OpenError)
      | Opened bytes \<Rightarrow>
          (case ReadFull (length RDBHeader) \<lparr>content = bytes, offset = 0\<rparr> of
             None \<Rightarrow> Some (Err ReadHeaderError)
           | Some (header, f) \<Rightarrow>
               if header \<noteq> RDBHeader then Some (Err InvalidHeader)
               else Read_loop f []))"

section \<open>Loading the snapshot at startup\<close>

text \<open>
  \<open>time.Until(t)\<close> on a reading \<open>now\<close> of the clock: the difference, kept inside the
  range of \<open>time.Duration\<close>; and \<open>d.Milliseconds()\<close>, which rounds towards zero.
\<close>

definition time_Until :: "Time \<Rightarrow> Time \<Rightarrow> Duration" where
  "time_Until now t =
     (if t - now > maxDuration then maxDuration
      else if t - now < minDuration then minDuration
      else t - now)"

definition Milliseconds :: "Duration \<Rightarrow> int" where
  "Milliseconds d = (if d < 0 then - ((- d) div 1000000) else d div 1000000)"

text \<open>The body of the loop \<open>for _, pair := range pairs\<close> in \<open>main\<close>.\<close>

definition load_pair :: "(nat \<Rightarrow> Time) \<Rightarrow> KeyValue \<Rightarrow> world \<Rightarrow> world" where
  "load_pair clk pair w =
     (if HasExpiry pair then
        (let (now, w1) = time_Now clk w;
             px = Milliseconds (time_Until now (ExpiresAt pair))
         in if px \<le> 0 then w1 else Store_Set clk (Key pair) (Value pair) px w1)
      else Store_Set clk (Key pair) (Value pair) 0 w)"

text \<open>
  The start of \<open>main\<close>, up to \<open>net.Listen\<close>: the server goes on to listen with the store
  it has, or the process dies in a panic. An error of \<open>Read\<close> is logged and the store is
  left as it is.
\<close>

datatype startup = Listening world | Crashed

definition main_load :: "(nat \<Rightarrow> Time) \<Rightarrow> opened \<Rightarrow> world \<Rightarrow> startup option" where
  "main_load clk opn w =
     (case Reader_Read opn of
        None \<Rightarrow> None
      | Some Crash \<Rightarrow> Some Crashed
      | Some (Err e) \<Rightarrow> Some (Listening w)
      | Some (Ok pairs) \<Rightarrow> Some (Listening (fold (load_pair clk) pairs w)))"

section \<open>Properties of the store\<close>

subsection \<open>Facts about the key scan and the 64-bit wrap-around\<close>

lemma getAllKeys_loop_set:
  "set (fst (getAllKeys_loop now xs keys dels)) =
     set keys \<union> {k. \<exists>it. (k, it) \<in> set xs \<and> \<not> (hasExpiry it \<and> Time_After now (expiresAt it))}"
  by (induction now xs keys dels rule: getAllKeys_loop.induct) auto

lemma ticks_getAllKeys: "ticks (snd (getAllKeys clk w)) = Suc (ticks w)"
  by (simp add: getAllKeys_def time_Now_def split_beta)

lemma set_getAllKeys:
  "set (fst (getAllKeys clk w)) =
     {k. \<exists>it. (k, it) \<in> set (data w) \<and> \<not> (hasExpiry it \<and> Time_After (clk (ticks w)) (expiresAt it))}"
  by (simp add: getAllKeys_def time_Now_def split_beta getAllKeys_loop_set)

lemma wrap64_id: "- (2 ^ 63) \<le> x \<Longrightarrow> x < 2 ^ 63 \<Longrightarrow> wrap64 x = x"
proof -
  assume a: "- (2 ^ 63) \<le> x" "x < 2 ^ 63"
  have "(x + 2 ^ 63) mod 2 ^ 64 = x + 2 ^ 63"
    by (rule mod_pos_pos_trivial) (use a in simp_all)
  then show ?thesis by (simp add: wrap64_def)
qed

lemma written_Store_Get: "written (snd (Store_Get clk key w)) = written w"
  by (simp add: Store_Get_def time_Now_def split: option.splits)

lemma data_Store_Get: "data (snd (Store_Get clk key w)) = data w"
  by (simp add: Store_Get_def time_Now_def split: option.splits)

lemma written_Store_Set: "written (Store_Set clk key val px w) = written w"
  by (simp add: Store_Set_def time_Now_def Let_def)


lemma written_getAllKeys: "written (snd (getAllKeys clk w)) = written w"
  by (simp add: getAllKeys_def time_Now_def split_beta)

lemma data_getAllKeys: "data (snd (getAllKeys clk w)) = data w"
  by (simp add: getAllKeys_def time_Now_def split_beta)




subsection \<open>Expiry at the boundary\<close>

text \<open>
  Claim C1, as the code has it. For an entry with an expiry, \<open>Store.Get\<close> and
  \<open>getAllKeys\<close> each read the clock once, and the entry counts as expired exactly when
  that reading is strictly after \<open>expiresAt\<close>: \<open>Get\<close> then reports the key absent, and
  the key scan leaves it out. At the boundary itself (the reading equal to \<open>expiresAt\<close>)
  the entry is still live.
\<close>

theorem C1_expired_iff_strictly_after:
  assumes "map_of (data w) key = Some item" and "hasExpiry item"
    and "distinct (map fst (data w))"
  shows "fst (Store_Get clk key w) =
           (if expiresAt item < clk (ticks w) then ([], False) else (item_value item, True))
       \<and> ticks (snd (Store_Get clk key w)) = Suc (ticks w)
       \<and> (key \<in> set (fst (getAllKeys clk w))) = (\<not> expiresAt item < clk (ticks w))
       \<and> ticks (snd (getAllKeys clk w)) = Suc (ticks w)"
proof -
  have get: "fst (Store_Get clk key w) =
           (if expiresAt item < clk (ticks w) then ([], False) else (item_value item, True))"
    using assms(1,2) by (simp add: Store_Get_def time_Now_def Time_After_def)
  have tk: "ticks (snd (Store_Get clk key w)) = Suc (ticks w)"
    using assms(1,2) by (simp add: Store_Get_def time_Now_def Time_After_def)
  have mem: "(key, item) \<in> set (data w)"
    using assms(1) by (rule map_of_SomeD)
  have uniq: "it = item" if "(key, it) \<in> set (data w)" for it
    using that assms(1,3) by simp
  have "(key \<in> set (fst (getAllKeys clk w))) =
        (\<exists>it. (key, it) \<in> set (data w) \<and> \<not> (hasExpiry it \<and> Time_After (clk (ticks w)) (expiresAt it)))"
    by (simp add: set_getAllKeys)
  also have "\<dots> = (\<not> (hasExpiry item \<and> Time_After (clk (ticks w)) (expiresAt item)))"
    using mem uniq by blast
  finally have keys: "(key \<in> set (fst (getAllKeys clk w))) = (\<not> expiresAt item < clk (ticks w))"
    using assms(2) by (simp add: Time_After_def)
  from get tk keys ticks_getAllKeys show ?thesis by blast
qed

text \<open>
  The theorem at an entry that expires at 1000, read at 1001: absent, and not among the keys.
\<close>

theorem C1_witness:
  "fst (Store_Get (\<lambda>n. 1001) ''k''
     \<lparr>data = [(''k'', \<lparr>item_value = ''v'', hasExpiry = True, expiresAt = 1000\<rparr>)],
      detached = [], ticks = 0, written = []\<rparr>) = ([], False)
   \<and> ''k'' \<notin> set (fst (getAllKeys (\<lambda>n. 1001)
     \<lparr>data = [(''k'', \<lparr>item_value = ''v'', hasExpiry = True, expiresAt = 1000\<rparr>)],
      detached = [], ticks = 0, written = []\<rparr>))"
proof -
  let ?it = "\<lparr>item_value = ''v'', hasExpiry = True, expiresAt = 1000\<rparr>"
  let ?w = "\<lparr>data = [(''k'', ?it)], detached = [], ticks = 0, written = []\<rparr>"
  have a: "map_of (data ?w) ''k'' = Some ?it" by simp
  have b: "hasExpiry ?it" by simp
  have c: "distinct (map fst (data ?w))" by simp
  show ?thesis
    using C1_expired_iff_strictly_after [OF a b c, of "\<lambda>n. 1001"] by simp
qed

text \<open>
  Claim C1 as it is written treats a key read exactly at its expiry as expired. The code
  does not: at the reading 1000 an entry with \<open>expiresAt = 1000\<close> is returned by
  \<open>Get\<close> and listed by the key scan.
\<close>

theorem C1_boundary_counterexample:
  "fst (Store_Get (\<lambda>n. 1000) ''k''
     \<lparr>data = [(''k'', \<lparr>item_value = ''v'', hasExpiry = True, expiresAt = 1000\<rparr>)],
      detached = [], ticks = 0, written = []\<rparr>) = (''v'', True)
   \<and> fst (getAllKeys (\<lambda>n. 1000)
     \<lparr>data = [(''k'', \<lparr>item_value = ''v'', hasExpiry = True, expiresAt = 1000\<rparr>)],
      detached = [], ticks = 0, written = []\<rparr>) = [''k'']"
  by (simp add: Store_Get_def getAllKeys_def time_Now_def Time_After_def)

subsection \<open>Writing an entry\<close>




section \<open>Properties of the dispatcher\<close>

lemma written_conn_Write: "written (snd (conn_Write wfail b w)) = written w @ [b]"
  by (simp add: conn_Write_def)

lemma data_conn_Write: "data (snd (conn_Write wfail b w)) = data w"
  by (simp add: conn_Write_def)

lemma snd_check_err: "snd (check_err r) = snd r"
  by (simp add: check_err_def)

lemma snd_reply_continue: "snd (reply_continue r) = snd r"
  by (simp add: reply_continue_def)

lemmas reply_simps = written_conn_Write data_conn_Write snd_check_err snd_reply_continue
  written_Store_Get data_Store_Get written_Store_Set written_getAllKeys data_getAllKeys







lemma cmd_ECHO_data: "data (snd (cmd_ECHO wfail elements w)) = data w"
  by (simp add: cmd_ECHO_def reply_simps)

lemma cmd_GET_data: "data (snd (cmd_GET clk wfail elements w)) = data w"
  by (simp add: cmd_GET_def reply_simps split_beta)

lemma cmd_CONFIG_data: "data (snd (cmd_CONFIG cfg wfail elements w)) = data w"
  by (simp add: cmd_CONFIG_def handleConfigGet_def reply_simps Let_def)

lemma cmd_KEYS_data: "data (snd (cmd_KEYS clk wfail elements w)) = data w"
  by (simp add: cmd_KEYS_def reply_simps split_beta)










section \<open>The association list stays a map\<close>

text \<open>
  A Go map holds one entry for a key. The list that stands for \<open>store.data\<close> keeps its
  keys distinct under every operation of the server: writing, the detached removal, a
  command, a whole connection and the load at startup. Removing a key twice is removing it
  once.
\<close>

lemma Store_Set_distinct:
  "distinct (map fst (data w)) \<Longrightarrow> distinct (map fst (data (Store_Set clk key val px w)))"
  by (simp add: Store_Set_def time_Now_def Let_def distinct_update)

lemma deleteKey_distinct:
  "distinct (map fst (data w)) \<Longrightarrow> distinct (map fst (data (deleteKey key w)))"
  by (simp add: deleteKey_def distinct_delete)

lemma deleteKey_idem: "deleteKey key (deleteKey key w) = deleteKey key w"
  by (simp add: deleteKey_def delete_idem)

lemma cmd_SET_distinct:
  "distinct (map fst (data w)) \<Longrightarrow> distinct (map fst (data (snd (cmd_SET clk wfail elements w))))"
  by (simp add: cmd_SET_def reply_simps Store_Set_distinct Let_def split: option.splits)

lemma dispatch_distinct:
  "distinct (map fst (data w)) \<Longrightarrow>
     distinct (map fst (data (snd (dispatch cfg clk wfail elements w))))"
  by (simp add: dispatch_def Let_def reply_simps cmd_ECHO_data cmd_GET_data cmd_CONFIG_data
      cmd_KEYS_data cmd_SET_distinct)

lemma handleRequest_distinct:
  "distinct (map fst (data w)) \<Longrightarrow>
     distinct (map fst (data (snd (handleRequest cfg clk wfail inp w))))"
proof (induction cfg clk wfail inp w rule: handleRequest.induct)
  case (1 cfg clk wfail inp w)
  show ?case
  proof (cases "read_frame inp")
    case (Decoded elements rest)
    obtain fl w1 where d: "dispatch cfg clk wfail elements w = (fl, w1)"
      by (cases "dispatch cfg clk wfail elements w")
    have w1: "distinct (map fst (data w1))"
      using dispatch_distinct [OF "1.prems", of cfg clk wfail elements] d by simp
    show ?thesis
    proof (cases fl)
      case Continue
      with "1.IH" [OF Decoded d [symmetric] Continue w1] Decoded d show ?thesis
        by (simp add: handleRequest.simps [of cfg clk wfail inp w])
    next
      case Return
      with Decoded d w1 show ?thesis
        by (simp add: handleRequest.simps [of cfg clk wfail inp w])
    qed
  next
    case Closed
    with "1.prems" show ?thesis by (simp add: handleRequest.simps [of cfg clk wfail inp w])
  next
    case Panic
    with "1.prems" show ?thesis by (simp add: handleRequest.simps [of cfg clk wfail inp w])
  qed
qed

lemma load_pair_distinct:
  "distinct (map fst (data w)) \<Longrightarrow> distinct (map fst (data (load_pair clk pair w)))"
  by (simp add: load_pair_def time_Now_def Let_def Store_Set_distinct)

lemma fold_load_pair_distinct:
  "distinct (map fst (data w)) \<Longrightarrow> distinct (map fst (data (fold (load_pair clk) pairs w)))"
  by (induction pairs arbitrary: w) (simp_all add: load_pair_distinct)

section \<open>Properties of the frame decoder\<close>







text \<open>
  Claim C10 says that no input makes the decoder panic. The code at the element header
  \<open>$-3\<close>: \<open>make([]byte, length+2)\<close> gets the size -1 and panics. A negative element
  count, \<open>*-1\<close>, panics in \<open>make([]string, 0, arrayLen)\<close> the same way.
\<close>

theorem C10_negative_length_panics:
  "read_frame (''*1'' @ CRLF @ ''$-3'' @ CRLF) = Panic
   \<and> handleRequest cfg clk wfail (''*1'' @ CRLF @ ''$-3'' @ CRLF) w = (Panicked, w)
   \<and> read_frame (''*-1'' @ CRLF) = Panic"
proof -
  have a: "read_frame (''*1'' @ CRLF @ ''$-3'' @ CRLF) = Panic"
    by (simp add: read_frame_def read_element_def ReadString_def HasPrefix_def TrimSuffix_def
        CRLF_def Atoi_def digit_val_def wrap64_def)
  have b: "read_frame (''*-1'' @ CRLF) = Panic"
    by (simp add: read_frame_def read_element_def ReadString_def HasPrefix_def TrimSuffix_def
        CRLF_def Atoi_def digit_val_def wrap64_def)
  from a b show ?thesis by (simp add: handleRequest.simps)
qed

section \<open>Properties of the snapshot loader\<close>

text \<open>
  The definitions that a run of the loader on the bytes of a file unfolds, and those of the
  start of \<open>main\<close>.
\<close>

lemmas loader_eval = Reader_Read_def ReadFull_def RDBHeader_def file_Read_def Read_loop.simps
  MetadataStart_def DatabaseStart_def EOF_def ResizeDB_def ExpireTime_def ExpireTimeMs_def
  TypeString_def read_database_def readLength_def to_int32_def read_pairs.simps read_pair_def
  read_expiry_def readString_def skipMetadata_def skipString_def

lemmas startup_eval = main_load_def load_pair_def time_Now_def time_Until_def Milliseconds_def
  maxDuration_def minDuration_def time_UnixMilli_def wrap64_def Store_Set_def Time_Add_def
  mul_Duration_def Millisecond_def

text \<open>
  Claim C9. When \<open>os.Open\<close> reports that the file does not exist, \<open>Read\<close> returns no
  record and no error, and \<open>main\<close> goes on to listen with the store exactly as it was.
\<close>

theorem C9_missing_file:
  "Reader_Read NotExist = Some (Ok []) \<and> main_load clk NotExist w = Some (Listening w)"
  by (simp add: Reader_Read_def main_load_def)

text \<open>
  Claim C2 says that the opcode that ends the record loop is handled by the opcode loop.
  The code reads a fresh byte at the top of the opcode loop instead, so the byte is lost.
  In a file with two database sections the selector \<open>0xFE\<close> after the first record is
  dropped and the first byte of the database number, 1, is taken as an opcode: the load
  fails with "unsupported opcode: 1". With bytes after the end marker (here \<open>0x12 0x34\<close>,
  where a checksum would stand) the marker is dropped and \<open>0x12\<close> is taken as an opcode.
\<close>

theorem C2_terminator_dropped:
  "Reader_Read (Opened (''REDIS0011'' @
       [CHR 0xFE, CHR 0x00, CHR 0x00, CHR 0x00, CHR 0x00,
        CHR 0x00, CHR 0x03, CHR 0x00, CHR 0x00, CHR 0x00] @ ''foo'' @
       [CHR 0x03, CHR 0x00, CHR 0x00, CHR 0x00] @ ''bar'' @
       [CHR 0xFE, CHR 0x01, CHR 0x00, CHR 0x00, CHR 0x00,
        CHR 0x00, CHR 0x03, CHR 0x00, CHR 0x00, CHR 0x00] @ ''baz'' @
       [CHR 0x03, CHR 0x00, CHR 0x00, CHR 0x00] @ ''qux'' @ [CHR 0xFF]))
     = Some (Err (UnsupportedOpcode (CHR 0x01)))
   \<and> Reader_Read (Opened (''REDIS0011'' @
       [CHR 0xFE, CHR 0x00, CHR 0x00, CHR 0x00, CHR 0x00,
        CHR 0x00, CHR 0x03, CHR 0x00, CHR 0x00, CHR 0x00] @ ''foo'' @
       [CHR 0x03, CHR 0x00, CHR 0x00, CHR 0x00] @ ''bar'' @
       [CHR 0xFF, CHR 0x12, CHR 0x34]))
     = Some (Err (UnsupportedOpcode (CHR 0x12)))"
  by (simp add: loader_eval)

subsection \<open>Records with an expiry at startup\<close>

lemma Milliseconds_Until:
  assumes "1000000 \<le> t - now"
  shows "Milliseconds (time_Until now t) = min (t - now) maxDuration div 1000000"
    and "0 < min (t - now) maxDuration div 1000000"
    and "min (t - now) maxDuration div 1000000 \<le> 9223372036854"
proof -
  let ?m = "min (t - now) maxDuration"
  have u: "time_Until now t = ?m"
    using assms by (simp add: time_Until_def maxDuration_def minDuration_def min_def)
  have m: "1000000 \<le> ?m" "?m \<le> 9223372036854775807"
    using assms by (simp_all add: maxDuration_def)
  from m(1) have "1000000 div 1000000 \<le> ?m div (1000000::int)"
    by (intro zdiv_mono1) simp_all
  then show "0 < ?m div 1000000" by simp
  from m(2) have "?m div 1000000 \<le> 9223372036854775807 div (1000000::int)"
    by (intro zdiv_mono1) simp_all
  then show "?m div 1000000 \<le> 9223372036854" by simp
  have "\<not> ?m < 0" using m(1) by linarith
  then show "Milliseconds (time_Until now t) = ?m div 1000000"
    unfolding u Milliseconds_def by (rule if_not_P)
qed

lemma Milliseconds_Until_small:
  assumes "t - now < 1000000"
  shows "Milliseconds (time_Until now t) \<le> 0"
proof -
  let ?d = "time_Until now t"
  have d: "?d < 1000000"
    using assms by (simp add: time_Until_def maxDuration_def minDuration_def)
  show ?thesis
  proof (cases "?d < 0")
    case True
    then have "0 \<le> (- ?d) div 1000000" by simp
    with True show ?thesis by (simp add: Milliseconds_def)
  next
    case False
    with d have "?d div 1000000 = 0" by simp
    with False show ?thesis by (simp add: Milliseconds_def)
  qed
qed

lemma load_pair_skip:
  assumes "HasExpiry pair" and "ExpiresAt pair - clk (ticks w) < 1000000"
  shows "load_pair clk pair w = w\<lparr>ticks := Suc (ticks w)\<rparr>"
  using assms(1) Milliseconds_Until_small [OF assms(2)]
  by (simp add: load_pair_def time_Now_def)

lemma load_pair_ttl:
  assumes "HasExpiry pair" and "1000000 \<le> ExpiresAt pair - clk (ticks w)"
  shows "load_pair clk pair w =
           Store_Set clk (Key pair) (Value pair)
             (min (ExpiresAt pair - clk (ticks w)) maxDuration div 1000000)
             (w\<lparr>ticks := Suc (ticks w)\<rparr>)"
  using assms(1) Milliseconds_Until [OF assms(2)]
  by (simp add: load_pair_def time_Now_def)

text \<open>
  Claim C7, as the code has it. For each recovered record the loop of \<open>main\<close> reads the
  clock; a record whose expiry is less than one millisecond after that reading (already
  passed, or up to 999999 nanoseconds ahead) is skipped and the store keeps what it had.
  Every other record is written with \<open>Store.Set\<close>: a record with no expiry as an entry
  that never expires, a record with an expiry with the whole milliseconds that remain
  (at most the range of \<open>time.Duration\<close>) as its time to live, counted from the clock
  reading \<open>Set\<close> takes. After a load that succeeded, \<open>main\<close> has run this on every
  record in order.
\<close>

theorem C7_load_pair:
  "map_of (data (load_pair clk pair w)) =
     (if HasExpiry pair \<and> ExpiresAt pair - clk (ticks w) < 1000000 then map_of (data w)
      else (map_of (data w))(Key pair \<mapsto>
             \<lparr>item_value = Value pair, hasExpiry = HasExpiry pair,
              expiresAt =
                (if HasExpiry pair
                 then clk (Suc (ticks w))
                      + (min (ExpiresAt pair - clk (ticks w)) maxDuration div 1000000) * 1000000
                 else zeroTime)\<rparr>))
   \<and> (Reader_Read opn = Some (Ok pairs) \<longrightarrow>
        main_load clk opn w = Some (Listening (fold (load_pair clk) pairs w)))"
proof -
  let ?d = "ExpiresAt pair - clk (ticks w)"
  let ?px = "min ?d maxDuration div 1000000"
  have skip: "map_of (data (load_pair clk pair w)) = map_of (data w)"
    if "HasExpiry pair" "?d < 1000000"
    using that load_pair_skip [of pair clk w] by simp
  have ttl: "map_of (data (load_pair clk pair w)) =
      (map_of (data w))(Key pair \<mapsto> \<lparr>item_value = Value pair, hasExpiry = True,
          expiresAt = clk (Suc (ticks w)) + ?px * 1000000\<rparr>)"
    if h: "HasExpiry pair" and d: "1000000 \<le> ?d"
  proof -
    have px: "0 < ?px" "?px \<le> 9223372036854"
      using Milliseconds_Until(2,3) [OF d] by simp_all
    then have "wrap64 (?px * 1000000) = ?px * 1000000"
      by (intro wrap64_id) simp_all
    with px(1) show ?thesis
      unfolding load_pair_ttl [of pair clk w, OF h d]
      by (simp add: Store_Set_def time_Now_def Time_Add_def mul_Duration_def Millisecond_def
          Let_def update_conv')
  qed
  have plain: "map_of (data (load_pair clk pair w)) =
      (map_of (data w))(Key pair \<mapsto> \<lparr>item_value = Value pair, hasExpiry = False,
          expiresAt = zeroTime\<rparr>)"
    if "\<not> HasExpiry pair"
    using that by (simp add: load_pair_def Store_Set_def update_conv')
  have main: "main_load clk opn w = Some (Listening (fold (load_pair clk) pairs w))"
    if "Reader_Read opn = Some (Ok pairs)"
    using that by (simp add: main_load_def)
  show ?thesis
  proof (cases "HasExpiry pair")
    case True
    then show ?thesis using skip ttl main by (cases "?d < 1000000") simp_all
  next
    case False
    then show ?thesis using plain main by simp
  qed
qed

text \<open>
  The theorem at a snapshot with one record \<open>foo\<close>/\<open>bar\<close> that expires at 1000
  milliseconds, loaded 5 milliseconds before: the entry is written with 5 milliseconds to
  live from the second reading of the clock.
\<close>

theorem C7_witness:
  "main_load (\<lambda>n. 995000000 + 100 * int n)
     (Opened (''REDIS0011'' @
       [CHR 0xFE, CHR 0x00, CHR 0x00, CHR 0x00, CHR 0x00,
        CHR 0xFC, CHR 0xE8, CHR 0x03, CHR 0x00, CHR 0x00, CHR 0x00, CHR 0x00, CHR 0x00, CHR 0x00,
        CHR 0x00, CHR 0x03, CHR 0x00, CHR 0x00, CHR 0x00] @ ''foo'' @
       [CHR 0x03, CHR 0x00, CHR 0x00, CHR 0x00] @ ''bar'' @ [CHR 0xFF]))
     \<lparr>data = [], detached = [], ticks = 0, written = []\<rparr>
   = Some (Listening
       \<lparr>data = [(''foo'', \<lparr>item_value = ''bar'', hasExpiry = True, expiresAt = 1000000100\<rparr>)],
        detached = [], ticks = 2, written = []\<rparr>)"
proof -
  let ?opn = "Opened (''REDIS0011'' @
       [CHR 0xFE, CHR 0x00, CHR 0x00, CHR 0x00, CHR 0x00,
        CHR 0xFC, CHR 0xE8, CHR 0x03, CHR 0x00, CHR 0x00, CHR 0x00, CHR 0x00, CHR 0x00, CHR 0x00,
        CHR 0x00, CHR 0x03, CHR 0x00, CHR 0x00, CHR 0x00] @ ''foo'' @
       [CHR 0x03, CHR 0x00, CHR 0x00, CHR 0x00] @ ''bar'' @ [CHR 0xFF])"
  let ?pair = "\<lparr>Key = ''foo'', Value = ''bar'', HasExpiry = True, ExpiresAt = 1000000000\<rparr>"
  have r: "Reader_Read ?opn = Some (Ok [?pair])"
    by (simp add: loader_eval time_UnixMilli_def wrap64_def)
  have "main_load (\<lambda>n. 995000000 + 100 * int n) ?opn
          \<lparr>data = [], detached = [], ticks = 0, written = []\<rparr>
        = Some (Listening (fold (load_pair (\<lambda>n. 995000000 + 100 * int n)) [?pair]
            \<lparr>data = [], detached = [], ticks = 0, written = []\<rparr>))"
    using C7_load_pair [of _ _ _ ?opn "[?pair]"] r by blast
  then show ?thesis
    by (simp add: load_pair_def time_Now_def time_Until_def Milliseconds_def
          maxDuration_def minDuration_def wrap64_def Store_Set_def Time_Add_def
          mul_Duration_def Millisecond_def)
qed

text \<open>
  Claim C7 as it is written has every record whose expiry is still in the future written
  to the store. The same snapshot loaded half a millisecond before the expiry: \<open>Read\<close>
  returns the record, the expiry is after the clock reading, and the store stays empty,
  because \<open>Milliseconds()\<close> rounds the time left down to 0 and \<open>px <= 0\<close> skips.
\<close>

theorem C7_submillisecond_counterexample:
  "main_load (\<lambda>n. 999500000)
     (Opened (''REDIS0011'' @
       [CHR 0xFE, CHR 0x00, CHR 0x00, CHR 0x00, CHR 0x00,
        CHR 0xFC, CHR 0xE8, CHR 0x03, CHR 0x00, CHR 0x00, CHR 0x00, CHR 0x00, CHR 0x00, CHR 0x00,
        CHR 0x00, CHR 0x03, CHR 0x00, CHR 0x00, CHR 0x00] @ ''foo'' @
       [CHR 0x03, CHR 0x00, CHR 0x00, CHR 0x00] @ ''bar'' @ [CHR 0xFF]))
     \<lparr>data = [], detached = [], ticks = 0, written = []\<rparr>
   = Some (Listening \<lparr>data = [], detached = [], ticks = 1, written = []\<rparr>)
   \<and> Reader_Read (Opened (''REDIS0011'' @
       [CHR 0xFE, CHR 0x00, CHR 0x00, CHR 0x00, CHR 0x00,
        CHR 0xFC, CHR 0xE8, CHR 0x03, CHR 0x00, CHR 0x00, CHR 0x00, CHR 0x00, CHR 0x00, CHR 0x00,
        CHR 0x00, CHR 0x03, CHR 0x00, CHR 0x00, CHR 0x00] @ ''foo'' @
       [CHR 0x03, CHR 0x00, CHR 0x00, CHR 0x00] @ ''bar'' @ [CHR 0xFF]))
   = Some (Ok [\<lparr>Key = ''foo'', Value = ''bar'', HasExpiry = True, ExpiresAt = 1000000000\<rparr>])
   \<and> Time_After 1000000000 999500000"
  by (simp add: loader_eval startup_eval Time_After_def)

end
